theory Spec2Isabelle
  imports Complex_Main "HOL-Library.Word" "HOL-Library.Sublist" "HOL-Library.Multiset"
begin

unbundle bit_operations_syntax

section \<open>Data model of \<^verbatim>\<open>server.py\<close>\<close>

text \<open>
  A stored review is a dictionary with the four string fields below (the rows of
  \<^verbatim>\<open>data/reviews.csv\<close>, and the \<^verbatim>\<open>new_review\<close> dictionary of the POST branch).
  The record of a GET response extends it by the \<^verbatim>\<open>sentiment\<close> dictionary, in the
  key order in which \<^verbatim>\<open>review_data\<close> is built.
\<close>

record review =
  ReviewId :: string
  ReviewBody :: string
  Location :: string
  Timestamp :: string

text \<open>
  The result of \<^verbatim>\<open>sia.polarity_scores\<close>. The scores are Python floats; they are
  modelled as reals (VADER never returns NaN, and only the order of
  \<^verbatim>\<open>compound\<close> matters to the handler).
\<close>

record sentiment_scores =
  neg :: real
  neu :: real
  pos :: real
  compound :: real

record review_data = review +
  sentiment :: sentiment_scores

text \<open>The values handed to \<^verbatim>\<open>json.dumps\<close>.\<close>

datatype json =
    JString string
  | JNumber real
  | JObject "(string \<times> json) list"
  | JArray "json list"

text \<open>
  \<^verbatim>\<open>datetime.now()\<close> yields a value with these attributes; \<^verbatim>\<open>os.urandom(16)\<close>
  yields 128 random bits. Both are inputs of a POST request that the handler does
  not control.
\<close>

record datetime =
  year :: nat
  month :: nat
  day :: nat
  hour :: nat
  minute :: nat
  second :: nat
  microsecond :: nat

record world =
  urandom16 :: "128 word"
  now :: datetime

text \<open>
  The library functions the handler calls and that are not part of the repository.
  \<^item> \<^verbatim>\<open>parse_qs\<close> maps a query string to a dictionary from names to non-empty
    lists of values: a first value and the remaining ones.
  \<^item> \<^verbatim>\<open>pd.to_datetime\<close> either raises \<^verbatim>\<open>ValueError\<close> (\<open>None\<close>) or yields a
    point in time, an integer count of nanoseconds. Its other results (the
    not-a-time value, timestamps with a time zone) are not modelled.
  \<^item> \<^verbatim>\<open>json_dumps j\<close> is \<^verbatim>\<open>json.dumps(j, indent=2).encode("utf-8")\<close>, a byte string.
  \<^item> \<^verbatim>\<open>py_int\<close> is \<^verbatim>\<open>int\<close> on a string, \<^verbatim>\<open>decode_utf8\<close> is \<^verbatim>\<open>bytes.decode\<close>;
    \<open>None\<close> stands for the exception each of them can raise.
\<close>

record externals =
  parse_qs :: "string \<Rightarrow> string \<Rightarrow> (string \<times> string list) option"
  to_datetime :: "string \<Rightarrow> int option"
  polarity_scores :: "string \<Rightarrow> sentiment_scores"
  json_dumps :: "json \<Rightarrow> string"
  py_int :: "string \<Rightarrow> int option"
  decode_utf8 :: "string \<Rightarrow> string option"

text \<open>The WSGI environment, as far as \<^verbatim>\<open>__call__\<close> reads it.\<close>

record environ =
  REQUEST_METHOD :: string
  QUERY_STRING :: "string option"
  CONTENT_LENGTH :: "string option"
  wsgi_input :: string

text \<open>
  What \<^verbatim>\<open>__call__\<close> does with \<^verbatim>\<open>start_response\<close> and its return value: a status
  line, the list of headers, and the list of body chunks.
\<close>

record response =
  status :: string
  headers :: "(string \<times> string) list"
  body :: "string list"

datatype exn = ValueError | TypeError | UnicodeDecodeError

text \<open>
  A call either responds, or falls off the end of the function (any method other
  than GET and POST: \<^verbatim>\<open>start_response\<close> is not called and \<^verbatim>\<open>None\<close> is returned), or
  lets an exception escape.
\<close>

datatype outcome = Responded response | Returned_None | Raised exn

section \<open>Library functions with a fixed meaning\<close>

text \<open>\<^verbatim>\<open>str\<close> on a non-negative integer: its decimal digits.\<close>

fun str :: "nat \<Rightarrow> string" where
  "str n = (if n < 10 then [''0123456789'' ! n]
            else str (n div 10) @ [''0123456789'' ! (n mod 10)])"

declare str.simps [simp del]

text \<open>The inverse reading of a decimal numeral, used to state what a header value denotes.\<close>

definition digit_value :: "char \<Rightarrow> nat" where
  "digit_value c = of_char c - 48"

definition decimal_value :: "string \<Rightarrow> nat" where
  "decimal_value s = foldl (\<lambda>acc c. 10 * acc + digit_value c) 0 s"



text \<open>
  \<^verbatim>\<open>strftime("%Y-%m-%d %H:%M:%S")\<close>: every field in decimal, padded with zeros to its
  width; the microseconds are not printed.
\<close>

definition zero_pad :: "nat \<Rightarrow> nat \<Rightarrow> string" where
  "zero_pad w n = replicate (w - length (str n)) (CHR ''0'') @ str n"

definition strftime :: "datetime \<Rightarrow> string" where
  "strftime dt =
     zero_pad 4 (year dt) @ ''-'' @ zero_pad 2 (month dt) @ ''-'' @ zero_pad 2 (day dt) @ '' '' @
     zero_pad 2 (hour dt) @ '':'' @ zero_pad 2 (minute dt) @ '':'' @ zero_pad 2 (second dt)"

text \<open>
  \<^verbatim>\<open>uuid.uuid4()\<close> is \<^verbatim>\<open>UUID(bytes=os.urandom(16), version=4)\<close>: the variant and version
  bits are overwritten. \<^verbatim>\<open>str\<close> of a UUID prints the 32 hexadecimal digits in groups of
  8, 4, 4, 4 and 12.
\<close>

definition uuid4 :: "128 word \<Rightarrow> 128 word" where
  "uuid4 r =
     (((r AND NOT (push_bit 48 0xc000)) OR push_bit 48 0x8000)
        AND NOT (push_bit 64 0xf000)) OR push_bit 76 4"

definition hex32 :: "128 word \<Rightarrow> string" where
  "hex32 w = map (\<lambda>i. ''0123456789abcdef'' ! unat (drop_bit (4 * i) w AND 15)) (rev [0..<32])"

definition str_uuid :: "128 word \<Rightarrow> string" where
  "str_uuid u =
     (let h = hex32 u
      in take 8 h @ ''-'' @ take 4 (drop 8 h) @ ''-'' @ take 4 (drop 12 h) @ ''-'' @
         take 4 (drop 16 h) @ ''-'' @ drop 20 h)"

text \<open>
  \<^verbatim>\<open>list.sort(key=..., reverse=True)\<close>: CPython reverses the list, sorts it stably in
  ascending order of the key, and reverses the result.
\<close>

definition sort_reverse :: "('a \<Rightarrow> 'k::linorder) \<Rightarrow> 'a list \<Rightarrow> 'a list" where
  "sort_reverse key xs = rev (sort_key key (rev xs))"

text \<open>\<^verbatim>\<open>stream.read(n)\<close> on the request body: at most \<open>n\<close> bytes, everything when \<open>n\<close> is negative.\<close>

definition stream_read :: "string \<Rightarrow> int \<Rightarrow> string" where
  "stream_read data n = (if n < 0 then data else take (nat n) data)"

section \<open>The handler\<close>

definition VALID_LOCATIONS :: "string list" where
  "VALID_LOCATIONS =
    [''Albuquerque, New Mexico'', ''Carlsbad, California'', ''Chula Vista, California'',
     ''Colorado Springs, Colorado'', ''Denver, Colorado'', ''El Cajon, California'',
     ''El Paso, Texas'', ''Escondido, California'', ''Fresno, California'',
     ''La Mesa, California'', ''Las Vegas, Nevada'', ''Los Angeles, California'',
     ''Oceanside, California'', ''Phoenix, Arizona'', ''Sacramento, California'',
     ''Salt Lake City, Utah'', ''San Diego, California'', ''Tucson, Arizona'']"

definition analyze_sentiment :: "externals \<Rightarrow> string \<Rightarrow> sentiment_scores" where
  "analyze_sentiment ext review_body = polarity_scores ext review_body"

text \<open>\<^verbatim>\<open>params.get(k, [None])[0]\<close>: the first value of the name, or \<^verbatim>\<open>None\<close>.\<close>

definition params_get_first ::
  "(string \<Rightarrow> (string \<times> string list) option) \<Rightarrow> string \<Rightarrow> string option" where
  "params_get_first params k = (case params k of None \<Rightarrow> None | Some (v, vs) \<Rightarrow> Some v)"

text \<open>Python's truth value of a variable that holds \<^verbatim>\<open>None\<close> or a string.\<close>

definition truthy :: "string option \<Rightarrow> bool" where
  "truthy v = (case v of None \<Rightarrow> False | Some s \<Rightarrow> s \<noteq> [])"

text \<open>
  The variables \<^verbatim>\<open>start_date\<close> and \<^verbatim>\<open>end_date\<close> inside the \<^verbatim>\<open>try\<close> block hold
  \<^verbatim>\<open>None\<close>, a string that was not converted (only the empty one), or a timestamp.
\<close>

datatype date_var = DNone | DStr string | DTime int

text \<open>\<^verbatim>\<open>if start_date: start_date = pd.to_datetime(start_date)\<close>\<close>

definition convert_date :: "externals \<Rightarrow> string option \<Rightarrow> exn + date_var" where
  "convert_date ext d =
     (case d of
        None \<Rightarrow> Inr DNone
      | Some s \<Rightarrow>
          if s \<noteq> [] then
            (case to_datetime ext s of None \<Rightarrow> Inl ValueError | Some t \<Rightarrow> Inr (DTime t))
          else Inr (DStr s))"

text \<open>
  \<^verbatim>\<open>pd.to_datetime(review['Timestamp']) >= start_date\<close> and the same with \<^verbatim>\<open><=\<close>: the
  stored string is parsed first; a timestamp compared with anything but a timestamp
  raises \<^verbatim>\<open>TypeError\<close>.
\<close>

definition timestamp_ge :: "externals \<Rightarrow> review \<Rightarrow> date_var \<Rightarrow> exn + bool" where
  "timestamp_ge ext r d =
     (case to_datetime ext (Timestamp r) of
        None \<Rightarrow> Inl ValueError
      | Some t \<Rightarrow> (case d of DTime b \<Rightarrow> Inr (t \<ge> b) | DStr s \<Rightarrow> Inl TypeError | DNone \<Rightarrow> Inl TypeError))"

definition timestamp_le :: "externals \<Rightarrow> review \<Rightarrow> date_var \<Rightarrow> exn + bool" where
  "timestamp_le ext r d =
     (case to_datetime ext (Timestamp r) of
        None \<Rightarrow> Inl ValueError
      | Some t \<Rightarrow> (case d of DTime b \<Rightarrow> Inr (t \<le> b) | DStr s \<Rightarrow> Inl TypeError | DNone \<Rightarrow> Inl TypeError))"

text \<open>
  The condition of the list comprehension, with the short-circuit evaluation of
  \<^verbatim>\<open>or\<close> and \<^verbatim>\<open>and\<close>.
\<close>

definition keep_review :: "externals \<Rightarrow> date_var \<Rightarrow> date_var \<Rightarrow> review \<Rightarrow> exn + bool" where
  "keep_review ext start_date end_date r =
     (case (if start_date = DNone then Inr True else timestamp_ge ext r start_date) of
        Inl e \<Rightarrow> Inl e
      | Inr a \<Rightarrow>
          if \<not> a then Inr False
          else if end_date = DNone then Inr True
          else timestamp_le ext r end_date)"

text \<open>The list comprehension: the first exception ends it.\<close>

fun filter_by_date :: "externals \<Rightarrow> date_var \<Rightarrow> date_var \<Rightarrow> review list \<Rightarrow> exn + review list" where
  "filter_by_date ext start_date end_date [] = Inr []"
| "filter_by_date ext start_date end_date (r # rs) =
     (case keep_review ext start_date end_date r of
        Inl e \<Rightarrow> Inl e
      | Inr k \<Rightarrow>
          (case filter_by_date ext start_date end_date rs of
             Inl e \<Rightarrow> Inl e
           | Inr rs' \<Rightarrow> Inr (if k then r # rs' else rs')))"

text \<open>Lines 54 to 70: the value of \<^verbatim>\<open>filtered_reviews\<close>, or the exception raised on the way.\<close>

definition filtered_reviews ::
  "externals \<Rightarrow> review list \<Rightarrow> string option \<Rightarrow> string option \<Rightarrow> string option \<Rightarrow> exn + review list" where
  "filtered_reviews ext reviews location start_date end_date =
     (let filtered = (if truthy location then filter (\<lambda>r. Some (Location r) = location) reviews
                      else reviews)
      in if truthy start_date \<or> truthy end_date then
           (case convert_date ext start_date of
              Inl e \<Rightarrow> Inl e
            | Inr sd \<Rightarrow>
                (case convert_date ext end_date of
                   Inl e \<Rightarrow> Inl e
                 | Inr ed \<Rightarrow> filter_by_date ext sd ed filtered))
         else Inr filtered)"

text \<open>Lines 76 to 89: the response records, sorted.\<close>

definition make_review_data :: "externals \<Rightarrow> review \<Rightarrow> review_data" where
  "make_review_data ext r =
     \<lparr>ReviewId = ReviewId r, ReviewBody = ReviewBody r, Location = Location r,
      Timestamp = Timestamp r, sentiment = analyze_sentiment ext (ReviewBody r)\<rparr>"

definition results :: "externals \<Rightarrow> review list \<Rightarrow> review_data list" where
  "results ext filtered =
     sort_reverse (\<lambda>x. compound (sentiment x)) (map (make_review_data ext) filtered)"

definition sentiment_json :: "sentiment_scores \<Rightarrow> json" where
  "sentiment_json s =
     JObject [(''neg'', JNumber (neg s)), (''neu'', JNumber (neu s)),
              (''pos'', JNumber (pos s)), (''compound'', JNumber (compound s))]"

definition review_data_json :: "review_data \<Rightarrow> json" where
  "review_data_json d =
     JObject [(''ReviewId'', JString (ReviewId d)), (''ReviewBody'', JString (ReviewBody d)),
              (''Location'', JString (Location d)), (''Timestamp'', JString (Timestamp d)),
              (''sentiment'', sentiment_json (sentiment d))]"

definition review_json :: "review \<Rightarrow> json" where
  "review_json r =
     JObject [(''ReviewId'', JString (ReviewId r)), (''ReviewBody'', JString (ReviewBody r)),
              (''Location'', JString (Location r)), (''Timestamp'', JString (Timestamp r))]"

definition invalid_date_response :: response where
  \<open>invalid_date_response =
     \<lparr>status = ''400 Bad Request'', headers = [(''Content-Type'', ''application/json'')],
      body = [''{"error": "Invalid date format"}'']\<rparr>\<close>

definition required_response :: response where
  \<open>required_response =
     \<lparr>status = ''400 Bad Request'', headers = [(''Content-Type'', ''application/json'')],
      body = [''{"error": "Location and ReviewBody are required"}'']\<rparr>\<close>

definition invalid_location_response :: response where
  \<open>invalid_location_response =
     \<lparr>status = ''400 Bad Request'', headers = [(''Content-Type'', ''application/json'')],
      body = [''{"error": "Invalid location"}'']\<rparr>\<close>

definition ok_response :: "string \<Rightarrow> string \<Rightarrow> response" where
  "ok_response st response_body =
     \<lparr>status = st,
      headers = [(''Content-Type'', ''application/json''),
                 (''Content-Length'', str (length response_body))],
      body = [response_body]\<rparr>"

text \<open>Lines 46 and 47: \<^verbatim>\<open>parse_qs(environ.get("QUERY_STRING", ""))\<close>.\<close>

definition query_params :: "externals \<Rightarrow> environ \<Rightarrow> string \<Rightarrow> (string \<times> string list) option" where
  "query_params ext env =
     parse_qs ext (case QUERY_STRING env of None \<Rightarrow> [] | Some query_string \<Rightarrow> query_string)"

text \<open>The GET branch, lines 45 to 96. It has no assignment to \<^verbatim>\<open>self.reviews\<close>.\<close>

definition handle_get :: "externals \<Rightarrow> review list \<Rightarrow> environ \<Rightarrow> outcome" where
  "handle_get ext reviews env =
     (let params = query_params ext env;
          location = params_get_first params ''location'';
          start_date = params_get_first params ''start_date'';
          end_date = params_get_first params ''end_date''
      in case filtered_reviews ext reviews location start_date end_date of
           Inl ValueError \<Rightarrow> Responded invalid_date_response
         | Inl e \<Rightarrow> Raised e
         | Inr filtered \<Rightarrow>
             Responded (ok_response ''200 OK''
               (json_dumps ext (JArray (map review_data_json (results ext filtered))))))"

text \<open>Lines 99 and 100: the decoded request body.\<close>

definition read_post_data :: "externals \<Rightarrow> environ \<Rightarrow> exn + string" where
  "read_post_data ext env =
     (case (case CONTENT_LENGTH env of None \<Rightarrow> Some 0 | Some s \<Rightarrow> py_int ext s) of
        None \<Rightarrow> Inl ValueError
      | Some content_length \<Rightarrow>
          (case decode_utf8 ext (stream_read (wsgi_input env) content_length) of
             None \<Rightarrow> Inl UnicodeDecodeError
           | Some post_data \<Rightarrow> Inr post_data))"

text \<open>Lines 116 to 124: the new review.\<close>

definition new_review :: "world \<Rightarrow> string \<Rightarrow> string \<Rightarrow> review" where
  "new_review w location review_body =
     \<lparr>ReviewId = str_uuid (uuid4 (urandom16 w)), ReviewBody = review_body,
      Location = location, Timestamp = strftime (now w)\<rparr>"

text \<open>
  The POST branch, lines 98 to 135, returning the outcome and the new value of
  \<^verbatim>\<open>self.reviews\<close>. \<^verbatim>\<open>not location or not review_body\<close> holds when either variable is
  \<^verbatim>\<open>None\<close> or the empty string.
\<close>

definition handle_post ::
  "externals \<Rightarrow> world \<Rightarrow> review list \<Rightarrow> environ \<Rightarrow> outcome \<times> review list" where
  "handle_post ext w reviews env =
     (case read_post_data ext env of
        Inl e \<Rightarrow> (Raised e, reviews)
      | Inr post_data \<Rightarrow>
          (let params = parse_qs ext post_data;
               location = params_get_first params ''Location'';
               review_body = params_get_first params ''ReviewBody''
           in case location of
                None \<Rightarrow> (Responded required_response, reviews)
              | Some loc \<Rightarrow>
                  (case review_body of
                     None \<Rightarrow> (Responded required_response, reviews)
                   | Some rb \<Rightarrow>
                       if loc = [] \<or> rb = [] then (Responded required_response, reviews)
                       else if loc \<notin> set VALID_LOCATIONS then
                         (Responded invalid_location_response, reviews)
                       else
                         (Responded (ok_response ''201 Created''
                            (json_dumps ext (review_json (new_review w loc rb)))),
                          reviews @ [new_review w loc rb]))))"

text \<open>\<^verbatim>\<open>__call__\<close>: the outcome of one request and the store after it.\<close>

definition call ::
  "externals \<Rightarrow> world \<Rightarrow> review list \<Rightarrow> environ \<Rightarrow> outcome \<times> review list" where
  "call ext w reviews env =
     (if REQUEST_METHOD env = ''GET'' then (handle_get ext reviews env, reviews)
      else if REQUEST_METHOD env = ''POST'' then handle_post ext w reviews env
      else (Returned_None, reviews))"

section \<open>The vocabulary of the specification\<close>



text \<open>The first value of a query parameter of a GET request, as lines 49 to 51 read it.\<close>

definition query_param :: "externals \<Rightarrow> environ \<Rightarrow> string \<Rightarrow> string option" where
  "query_param ext env k = params_get_first (query_params ext env) k"





text \<open>Descending order of the compound score, pairwise and for neighbours.\<close>

definition compound_descending :: "review_data list \<Rightarrow> bool" where
  "compound_descending xs =
     sorted_wrt (\<lambda>a b. compound (sentiment a) \<ge> compound (sentiment b)) xs"

definition with_compound :: "real \<Rightarrow> review_data list \<Rightarrow> review_data list" where
  "with_compound c xs = filter (\<lambda>x. compound (sentiment x) = c) xs"





definition outcome_status :: "outcome \<Rightarrow> string option" where
  "outcome_status out = (case out of Responded resp \<Rightarrow> Some (status resp) | Returned_None \<Rightarrow> None | Raised e \<Rightarrow> None)"


section \<open>A concrete setting for the examples\<close>

text \<open>
  Stand-ins for the library functions on the handful of strings the examples use, a
  store of four reviews (the third with a timestamp that does not parse), and the
  requests of the examples.
\<close>

definition test_parse_qs :: "string \<Rightarrow> string \<Rightarrow> (string \<times> string list) option" where
  "test_parse_qs q k =
     (case map_of
        [(''location=Denver%2C+Colorado'', [(''location'', ''Denver, Colorado'')]),
         (''start_date=2023-01-01'', [(''start_date'', ''2023-01-01'')]),
         (''start_date=yesterday'', [(''start_date'', ''yesterday'')]),
         (''location=Denver%2C+Colorado&start_date=2023-01-01&end_date=2023-12-31'',
            [(''location'', ''Denver, Colorado''), (''start_date'', ''2023-01-01''),
             (''end_date'', ''2023-12-31'')]),
         (''location=Reno%2C+Nevada'', [(''location'', ''Reno, Nevada'')]),
         (''Location=Denver%2C+Colorado&ReviewBody=Great%21'',
            [(''Location'', ''Denver, Colorado''), (''ReviewBody'', ''Great!'')]),
         (''Location=Nowhere&ReviewBody=test'',
            [(''Location'', ''Nowhere''), (''ReviewBody'', ''test'')]),
         (''Location=Albuquerque+NM&ReviewBody=test'',
            [(''Location'', ''Albuquerque NM''), (''ReviewBody'', ''test'')]),
         (''ReviewBody=test'', [(''ReviewBody'', ''test'')])] q of
        None \<Rightarrow> None
      | Some kv \<Rightarrow> map_option (\<lambda>v. (v, [])) (map_of kv k))"

definition test_to_datetime :: "string \<Rightarrow> int option" where
  "test_to_datetime =
     map_of [(''2022-07-04 09:30:00'', 1656927000), (''2023-01-01'', 1672531200),
             (''2023-01-01 00:00:00'', 1672531200), (''2023-03-05 10:00:00'', 1678010400),
             (''2023-12-31'', 1703980800)]"

definition test_polarity_scores :: "string \<Rightarrow> sentiment_scores" where
  "test_polarity_scores text =
     (if text = ''Great!'' then \<lparr>neg = 0, neu = 0, pos = 1, compound = 0.6588\<rparr>
      else \<lparr>neg = 0, neu = 1, pos = 0, compound = 0\<rparr>)"

definition test_json_dumps :: "json \<Rightarrow> string" where
  "test_json_dumps j =
     (case j of
        JArray xs \<Rightarrow> ''['' @ replicate (length xs) (CHR ''.'') @ '']''
      | JObject kvs \<Rightarrow> ''{'' @ replicate (length kvs) (CHR ''.'') @ ''}''
      | JString s \<Rightarrow> s
      | JNumber x \<Rightarrow> ''0'')"

definition test_ext :: externals where
  "test_ext =
     \<lparr>parse_qs = test_parse_qs, to_datetime = test_to_datetime,
      polarity_scores = test_polarity_scores, json_dumps = test_json_dumps,
      py_int = map_of [(''47'', 47), (''32'', 32), (''39'', 39), (''15'', 15)],
      decode_utf8 = Some\<rparr>"

definition test_world :: world where
  "test_world =
     \<lparr>urandom16 = 0x0123456789abcdef0123456789abcdef,
      now = \<lparr>year = 2024, month = 2, day = 9, hour = 7, minute = 5, second = 3,
             microsecond = 123456\<rparr>\<rparr>"

definition review1 :: review where
  "review1 = \<lparr>ReviewId = ''r1'', ReviewBody = ''ok'', Location = ''Denver, Colorado'',
              Timestamp = ''2023-01-01 00:00:00''\<rparr>"

definition review2 :: review where
  "review2 = \<lparr>ReviewId = ''r2'', ReviewBody = ''Great!'', Location = ''Denver, Colorado'',
              Timestamp = ''2023-03-05 10:00:00''\<rparr>"

definition review3 :: review where
  "review3 = \<lparr>ReviewId = ''r3'', ReviewBody = ''fine'', Location = ''Tucson, Arizona'',
              Timestamp = ''soon''\<rparr>"

definition review4 :: review where
  "review4 = \<lparr>ReviewId = ''r4'', ReviewBody = ''meh'', Location = ''Denver, Colorado'',
              Timestamp = ''2022-07-04 09:30:00''\<rparr>"

definition test_reviews :: "review list" where
  "test_reviews = [review1, review2, review3, review4]"

definition get_request :: "string \<Rightarrow> environ" where
  "get_request q =
     \<lparr>REQUEST_METHOD = ''GET'', QUERY_STRING = Some q, CONTENT_LENGTH = None, wsgi_input = []\<rparr>"

definition post_request :: "string \<Rightarrow> string \<Rightarrow> environ" where
  "post_request n data =
     \<lparr>REQUEST_METHOD = ''POST'', QUERY_STRING = Some [], CONTENT_LENGTH = Some n,
      wsgi_input = data\<rparr>"

section \<open>Facts about the library functions\<close>

subsection \<open>Sorting in reverse\<close>

lemma sort_reverse_mset: "mset (sort_reverse key xs) = mset xs"
  by (simp add: sort_reverse_def)

lemma sort_reverse_sorted: "sorted_wrt (\<lambda>a b. key a \<ge> key b) (sort_reverse key xs)"
proof -
  have "sorted (map key (sort_key key (rev xs)))"
    by (rule sorted_sort_key)
  then have "sorted_wrt (\<lambda>a b. key a \<le> key b) (sort_key key (rev xs))"
    by (simp add: sorted_wrt_map)
  then show ?thesis
    by (simp add: sort_reverse_def sorted_wrt_rev)
qed

lemma sort_reverse_stable:
  "filter (\<lambda>x. key x = c) (sort_reverse key xs) = filter (\<lambda>x. key x = c) xs"
proof -
  have "filter (\<lambda>x. key x = c) (sort_reverse key xs)
        = rev (filter (\<lambda>x. key x = c) (sort_key key (rev xs)))"
    by (simp add: sort_reverse_def rev_filter)
  also have "\<dots> = rev (filter (\<lambda>x. key x = c) (rev xs))"
    by (simp only: sort_key_stable)
  also have "\<dots> = filter (\<lambda>x. key x = c) xs"
    by (simp add: rev_filter)
  finally show ?thesis .
qed

lemma sorted_wrt_neighbours:
  assumes "sorted_wrt P xs" and "Suc i < length xs"
  shows "P (xs ! i) (xs ! Suc i)"
  using assms by (simp add: sorted_wrt_iff_nth_less)

subsection \<open>Decimal numerals\<close>

lemma digit_value_nth: "d < 10 \<Longrightarrow> digit_value (''0123456789'' ! d) = d"
proof -
  assume "d < 10"
  then consider "d = 0" | "d = 1" | "d = 2" | "d = 3" | "d = 4" | "d = 5" | "d = 6" | "d = 7" | "d = 8" | "d = 9"
    by atomize_elim arith
  then show ?thesis
    by cases (simp_all add: digit_value_def)
qed

lemma decimal_value_snoc: "decimal_value (s @ [c]) = 10 * decimal_value s + digit_value c"
  by (simp add: decimal_value_def)

lemma decimal_value_str: "decimal_value (str n) = n"
proof (induction n rule: str.induct)
  case (1 n)
  show ?case
  proof (cases "n < 10")
    case True
    then show ?thesis
      by (simp add: str.simps [of n] decimal_value_def digit_value_nth)
  next
    case False
    with 1 have "decimal_value (str (n div 10)) = n div 10" by simp
    with False show ?thesis
      by (simp add: str.simps [of n] decimal_value_snoc digit_value_nth)
  qed
qed








subsection \<open>Formatted timestamps\<close>








subsection \<open>Printed UUIDs\<close>









section \<open>Facts about the handler\<close>

subsection \<open>Converting and comparing dates\<close>





lemma keep_review_no_bounds: "keep_review ext DNone DNone r = Inr True"
  by (simp add: keep_review_def)




subsection \<open>The filter as a whole\<close>



lemma filtered_reviews_no_dates:
  assumes "\<not> truthy start_date" "\<not> truthy end_date"
  shows "filtered_reviews ext reviews location start_date end_date =
         Inr (if truthy location then filter (\<lambda>r. Some (Location r) = location) reviews
              else reviews)"
  using assms by (simp add: filtered_reviews_def)


subsection \<open>The response records\<close>

lemma results_sorted: "compound_descending (results ext filtered)"
  unfolding compound_descending_def results_def by (rule sort_reverse_sorted)

lemma results_stable:
  "with_compound c (results ext filtered) = with_compound c (map (make_review_data ext) filtered)"
  unfolding with_compound_def results_def by (rule sort_reverse_stable)

lemma results_mset: "mset (results ext filtered) = mset (map (make_review_data ext) filtered)"
  unfolding results_def by (rule sort_reverse_mset)

lemma query_param_to_datetime:
  "query_param (ext\<lparr>to_datetime := p\<rparr>) env k = query_param ext env k"
  by (simp add: query_param_def query_params_def)

lemma results_to_datetime: "results (ext\<lparr>to_datetime := p\<rparr>) filtered = results ext filtered"
proof -
  have "make_review_data (ext\<lparr>to_datetime := p\<rparr>) = make_review_data ext"
    by (rule ext) (simp add: make_review_data_def analyze_sentiment_def)
  then show ?thesis by (simp add: results_def)
qed

subsection \<open>The branches of the handler\<close>

lemma call_get:
  "REQUEST_METHOD env = ''GET'' \<Longrightarrow> call ext w reviews env = (handle_get ext reviews env, reviews)"
  by (simp add: call_def)

lemma call_post:
  "REQUEST_METHOD env = ''POST'' \<Longrightarrow> call ext w reviews env = handle_post ext w reviews env"
  by (simp add: call_def)

lemma handle_get_200:
  assumes "handle_get ext reviews env = Responded resp" "status resp = ''200 OK''"
  shows "\<exists>filtered.
     filtered_reviews ext reviews (query_param ext env ''location'')
       (query_param ext env ''start_date'') (query_param ext env ''end_date'') = Inr filtered \<and>
     resp = ok_response ''200 OK'' (json_dumps ext (JArray (map review_data_json (results ext filtered))))"
  using assms
  by (auto simp: handle_get_def query_param_def Let_def invalid_date_response_def
      split: sum.splits exn.splits)

lemma handle_get_filtered:
  assumes "filtered_reviews ext reviews (query_param ext env ''location'')
       (query_param ext env ''start_date'') (query_param ext env ''end_date'') = Inr filtered"
  shows "handle_get ext reviews env =
         Responded (ok_response ''200 OK''
           (json_dumps ext (JArray (map review_data_json (results ext filtered)))))"
  using assms by (simp add: handle_get_def query_param_def Let_def)



lemma handle_get_cases:
  "(\<exists>response_body. handle_get ext reviews env = Responded (ok_response ''200 OK'' response_body)) \<or>
   handle_get ext reviews env = Responded invalid_date_response \<or>
   (\<exists>e. handle_get ext reviews env = Raised e)"
  by (auto simp: handle_get_def Let_def split: sum.splits exn.splits)

lemma handle_post_cases:
  "(\<exists>response_body. fst (handle_post ext w reviews env) = Responded (ok_response ''201 Created'' response_body)) \<or>
   fst (handle_post ext w reviews env) = Responded required_response \<or>
   fst (handle_post ext w reviews env) = Responded invalid_location_response \<or>
   (\<exists>e. fst (handle_post ext w reviews env) = Raised e)"
  by (auto simp: handle_post_def Let_def split: sum.splits option.splits)

lemma call_cases:
  assumes "call ext w reviews env = (Responded resp, reviews')"
  shows "(\<exists>response_body. resp = ok_response ''200 OK'' response_body) \<or>
         (\<exists>response_body. resp = ok_response ''201 Created'' response_body) \<or>
         resp = invalid_date_response \<or> resp = required_response \<or>
         resp = invalid_location_response"
proof -
  consider "REQUEST_METHOD env = ''GET''"
    | "REQUEST_METHOD env \<noteq> ''GET''" "REQUEST_METHOD env = ''POST''"
    | "REQUEST_METHOD env \<noteq> ''GET''" "REQUEST_METHOD env \<noteq> ''POST''"
    by blast
  then show ?thesis
  proof cases
    case 1
    with assms have "handle_get ext reviews env = Responded resp"
      by (auto simp: call_def)
    with handle_get_cases [of ext reviews env] show ?thesis by auto
  next
    case 2
    with assms have "fst (handle_post ext w reviews env) = Responded resp"
      by (auto simp: call_def)
    with handle_post_cases [of ext w reviews env] show ?thesis by auto
  next
    case 3
    with assms show ?thesis by (simp add: call_def)
  qed
qed

lemma ok_response_headers:
  "map_of (headers (ok_response st response_body)) ''Content-Type'' = Some ''application/json''"
  "map_of (headers (ok_response st response_body)) ''Content-Length'' =
     Some (str (length (concat (body (ok_response st response_body)))))"
  "status (ok_response st response_body) = st"
  by (simp_all add: ok_response_def)

lemma error_response_headers:
  "headers invalid_date_response = [(''Content-Type'', ''application/json'')]"
  "headers required_response = [(''Content-Type'', ''application/json'')]"
  "headers invalid_location_response = [(''Content-Type'', ''application/json'')]"
  "status invalid_date_response = ''400 Bad Request''"
  "status required_response = ''400 Bad Request''"
  "status invalid_location_response = ''400 Bad Request''"
  by (simp_all add: invalid_date_response_def required_response_def invalid_location_response_def)

text \<open>
  What every response carries: the content type always, the length of the body on the
  two success paths, and nothing but the content type on the three error paths.
\<close>

theorem response_headers:
  assumes "call ext w reviews env = (Responded resp, reviews')"
  shows "map_of (headers resp) ''Content-Type'' = Some ''application/json'' \<and>
         (status resp = ''200 OK'' \<or> status resp = ''201 Created'' \<or>
          status resp = ''400 Bad Request'') \<and>
         (status resp = ''200 OK'' \<or> status resp = ''201 Created'' \<longrightarrow>
            map_of (headers resp) ''Content-Length'' = Some (str (length (concat (body resp)))) \<and>
            decimal_value (str (length (concat (body resp)))) = length (concat (body resp))) \<and>
         (status resp = ''400 Bad Request'' \<longrightarrow>
            headers resp = [(''Content-Type'', ''application/json'')])"
  using call_cases [OF assms]
  by (auto simp: ok_response_headers error_response_headers decimal_value_str)

section \<open>Evaluating the examples\<close>

lemmas test_defs = test_ext_def test_parse_qs_def test_to_datetime_def test_polarity_scores_def
  test_json_dumps_def test_world_def test_reviews_def review1_def review2_def review3_def
  review4_def get_request_def post_request_def

lemmas handler_defs = call_def handle_get_def handle_post_def query_params_def query_param_def
  params_get_first_def truthy_def filtered_reviews_def convert_date_def keep_review_def
  timestamp_ge_def timestamp_le_def read_post_data_def stream_read_def

lemma get_request_method: "REQUEST_METHOD (get_request q) = ''GET''"
  by (simp add: get_request_def)

lemma post_request_method: "REQUEST_METHOD (post_request n data) = ''POST''"
  by (simp add: post_request_def)

lemma test_results:
  "results test_ext [review1, review2, review4] =
     map (make_review_data test_ext) [review2, review1, review4]"
  by (simp add: results_def sort_reverse_def make_review_data_def analyze_sentiment_def test_defs)

lemma test_call_denver:
  "call test_ext test_world test_reviews (get_request ''location=Denver%2C+Colorado'') =
     (Responded (ok_response ''200 OK'' ''[...]''), test_reviews)"
  by (simp add: handler_defs test_defs test_results [unfolded test_defs] results_def sort_reverse_def make_review_data_def analyze_sentiment_def)

lemma test_read_post_data:
  "read_post_data test_ext (post_request ''15'' ''ReviewBody=test'') = Inr ''ReviewBody=test''"
  "read_post_data test_ext (post_request ''32'' ''Location=Nowhere&ReviewBody=test'') =
     Inr ''Location=Nowhere&ReviewBody=test''"
  "read_post_data test_ext (post_request ''39'' ''Location=Albuquerque+NM&ReviewBody=test'') =
     Inr ''Location=Albuquerque+NM&ReviewBody=test''"
  "read_post_data test_ext (post_request ''47'' ''Location=Denver%2C+Colorado&ReviewBody=Great%21'') =
     Inr ''Location=Denver%2C+Colorado&ReviewBody=Great%21''"
  by (simp_all add: read_post_data_def stream_read_def test_ext_def post_request_def)

lemma test_post_fields:
  "params_get_first (parse_qs test_ext ''ReviewBody=test'') ''Location'' = None"
  "params_get_first (parse_qs test_ext ''ReviewBody=test'') ''ReviewBody'' = Some ''test''"
  "params_get_first (parse_qs test_ext ''Location=Nowhere&ReviewBody=test'') ''Location'' = Some ''Nowhere''"
  "params_get_first (parse_qs test_ext ''Location=Nowhere&ReviewBody=test'') ''ReviewBody'' = Some ''test''"
  "params_get_first (parse_qs test_ext ''Location=Albuquerque+NM&ReviewBody=test'') ''Location'' = Some ''Albuquerque NM''"
  "params_get_first (parse_qs test_ext ''Location=Albuquerque+NM&ReviewBody=test'') ''ReviewBody'' = Some ''test''"
  "params_get_first (parse_qs test_ext ''Location=Denver%2C+Colorado&ReviewBody=Great%21'') ''Location'' = Some ''Denver, Colorado''"
  "params_get_first (parse_qs test_ext ''Location=Denver%2C+Colorado&ReviewBody=Great%21'') ''ReviewBody'' = Some ''Great!''"
  by (simp_all add: params_get_first_def test_ext_def test_parse_qs_def)



section \<open>The order of the response records\<close>

text \<open>
  Claim C1. A GET request that is answered with \<^verbatim>\<open>200 OK\<close> carries the serialised
  records \<open>results ext filtered\<close> of the reviews that passed the filter. These records
  are in descending order of \<^verbatim>\<open>sentiment.compound\<close>, for every pair and so for every
  two neighbours, and the records of any one compound score appear in the order they had
  in the filtered sequence: the sort is a stable rearrangement of the filtered records.
\<close>

theorem get_sorted_stable:
  assumes "REQUEST_METHOD env = ''GET''"
    and "call ext w reviews env = (Responded resp, reviews')"
    and "status resp = ''200 OK''"
  shows "\<exists>filtered.
     filtered_reviews ext reviews (query_param ext env ''location'')
       (query_param ext env ''start_date'') (query_param ext env ''end_date'') = Inr filtered \<and>
     body resp = [json_dumps ext (JArray (map review_data_json (results ext filtered)))] \<and>
     compound_descending (results ext filtered) \<and>
     (\<forall>i. Suc i < length (results ext filtered) \<longrightarrow>
        compound (sentiment (results ext filtered ! i)) \<ge>
        compound (sentiment (results ext filtered ! Suc i))) \<and>
     (\<forall>c. with_compound c (results ext filtered) =
          with_compound c (map (make_review_data ext) filtered)) \<and>
     mset (results ext filtered) = mset (map (make_review_data ext) filtered)"
proof -
  from assms(1,2) have "handle_get ext reviews env = Responded resp"
    by (auto simp: call_def)
  from handle_get_200 [OF this assms(3)] obtain filtered where
    f: "filtered_reviews ext reviews (query_param ext env ''location'')
         (query_param ext env ''start_date'') (query_param ext env ''end_date'') = Inr filtered"
    and r: "resp = ok_response ''200 OK''
              (json_dumps ext (JArray (map review_data_json (results ext filtered))))"
    by blast
  have n: "\<forall>i. Suc i < length (results ext filtered) \<longrightarrow>
        compound (sentiment (results ext filtered ! i)) \<ge>
        compound (sentiment (results ext filtered ! Suc i))"
    using results_sorted [of ext filtered] unfolding compound_descending_def
    by (simp add: sorted_wrt_iff_nth_less)
  from r have "body resp = [json_dumps ext (JArray (map review_data_json (results ext filtered)))]"
    by (simp add: ok_response_def)
  with f n results_sorted results_stable results_mset show ?thesis by blast
qed

text \<open>
  The request \<^verbatim>\<open>location=Denver, Colorado\<close> on the example store: three reviews pass,
  the one with the positive score comes first, and the two with score 0 keep their order.
\<close>

theorem get_sorted_stable_witness:
  "REQUEST_METHOD (get_request ''location=Denver%2C+Colorado'') = ''GET'' \<and>
   call test_ext test_world test_reviews (get_request ''location=Denver%2C+Colorado'') =
     (Responded (ok_response ''200 OK'' ''[...]''), test_reviews) \<and>
   status (ok_response ''200 OK'' ''[...]'') = ''200 OK'' \<and>
   (\<exists>filtered.
     filtered_reviews test_ext test_reviews
       (query_param test_ext (get_request ''location=Denver%2C+Colorado'') ''location'')
       (query_param test_ext (get_request ''location=Denver%2C+Colorado'') ''start_date'')
       (query_param test_ext (get_request ''location=Denver%2C+Colorado'') ''end_date'') = Inr filtered \<and>
     filtered = [review1, review2, review4] \<and>
     map ReviewId (results test_ext filtered) = [''r2'', ''r1'', ''r4''] \<and>
     compound_descending (results test_ext filtered) \<and>
     with_compound 0 (results test_ext filtered) =
       with_compound 0 (map (make_review_data test_ext) filtered))"
proof -
  let ?env = "get_request ''location=Denver%2C+Colorado''"
  have h1: "REQUEST_METHOD ?env = ''GET''"
    by (simp add: get_request_def)
  have h3: "status (ok_response ''200 OK'' ''[...]'') = ''200 OK''"
    by (simp add: ok_response_def)
  have f: "filtered_reviews test_ext test_reviews (query_param test_ext ?env ''location'')
       (query_param test_ext ?env ''start_date'') (query_param test_ext ?env ''end_date'')
       = Inr [review1, review2, review4]"
    by (simp add: handler_defs test_defs)
  have m: "map ReviewId (results test_ext [review1, review2, review4]) = [''r2'', ''r1'', ''r4'']"
    by (simp only: test_results) (simp add: make_review_data_def review1_def review2_def review4_def)
  from get_sorted_stable [OF h1 test_call_denver h3] f m h1 h3 test_call_denver
  show ?thesis by auto
qed

section \<open>What the filter retains\<close>




section \<open>Malformed date parameters\<close>



section \<open>Rejected submissions\<close>



section \<open>Accepted submissions\<close>



section \<open>The valid locations\<close>




section \<open>The headers of the error responses\<close>

text \<open>
  Claim C7 does not hold of the error responses. The submission for \<^verbatim>\<open>Nowhere\<close> and
  the query with \<^verbatim>\<open>start_date=yesterday\<close> are both answered with
  \<^verbatim>\<open>400 Bad Request\<close> and a list of headers that holds the content type only; no
  \<^verbatim>\<open>Content-Length\<close> is among them, while the two success paths set it.
\<close>

theorem error_responses_lack_content_length:
  "call test_ext test_world test_reviews
     (post_request ''32'' ''Location=Nowhere&ReviewBody=test'') =
     (Responded invalid_location_response, test_reviews) \<and>
   headers invalid_location_response = [(''Content-Type'', ''application/json'')] \<and>
   map_of (headers invalid_location_response) ''Content-Length'' = None \<and>
   call test_ext test_world test_reviews (get_request ''start_date=yesterday'') =
     (Responded invalid_date_response, test_reviews) \<and>
   map_of (headers invalid_date_response) ''Content-Length'' = None"
proof -
  have "call test_ext test_world test_reviews
     (post_request ''32'' ''Location=Nowhere&ReviewBody=test'') =
     (Responded invalid_location_response, test_reviews)"
    by (simp add: call_post post_request_method handle_post_def test_read_post_data
        test_post_fields VALID_LOCATIONS_def)
  moreover have "call test_ext test_world test_reviews (get_request ''start_date=yesterday'') =
     (Responded invalid_date_response, test_reviews)"
    by (simp add: handler_defs test_defs)
  ultimately show ?thesis
    by (simp add: error_response_headers)
qed

section \<open>Requests without date parameters\<close>

text \<open>
  Claim C8. A GET request with neither \<^verbatim>\<open>start_date\<close> nor \<^verbatim>\<open>end_date\<close> is answered
  with \<^verbatim>\<open>200 OK\<close> and never with the response for a malformed date, whatever the store
  holds; and the outcome is the same with any other date parser \<open>p\<close> in place of
  \<^verbatim>\<open>pd.to_datetime\<close>, so no date is parsed.
\<close>

theorem no_date_params_no_parse:
  assumes "REQUEST_METHOD env = ''GET''"
    and "\<not> truthy (query_param ext env ''start_date'')"
    and "\<not> truthy (query_param ext env ''end_date'')"
  shows "outcome_status (fst (call ext w reviews env)) = Some ''200 OK'' \<and>
         fst (call ext w reviews env) \<noteq> Responded invalid_date_response \<and>
         call (ext\<lparr>to_datetime := p\<rparr>) w reviews env = call ext w reviews env"
proof -
  let ?filtered = "if truthy (query_param ext env ''location'')
                   then filter (\<lambda>r. Some (Location r) = query_param ext env ''location'') reviews
                   else reviews"
  let ?body = "json_dumps ext (JArray (map review_data_json (results ext ?filtered)))"
  have a: "handle_get ext reviews env = Responded (ok_response ''200 OK'' ?body)"
    by (rule handle_get_filtered) (rule filtered_reviews_no_dates [OF assms(2,3)])
  have "filtered_reviews (ext\<lparr>to_datetime := p\<rparr>) reviews
          (query_param (ext\<lparr>to_datetime := p\<rparr>) env ''location'')
          (query_param (ext\<lparr>to_datetime := p\<rparr>) env ''start_date'')
          (query_param (ext\<lparr>to_datetime := p\<rparr>) env ''end_date'') = Inr ?filtered"
    using assms(2,3) by (simp add: query_param_to_datetime filtered_reviews_no_dates)
  from handle_get_filtered [OF this]
  have b: "handle_get (ext\<lparr>to_datetime := p\<rparr>) reviews env = Responded (ok_response ''200 OK'' ?body)"
    by (simp add: results_to_datetime)
  from a b show ?thesis
    by (simp add: call_get [OF assms(1)] outcome_status_def ok_response_def
        invalid_date_response_def)
qed

text \<open>
  The request for Denver on the example store, whose third review has a timestamp that
  does not parse, and with a parser that rejects every string.
\<close>

theorem no_date_params_no_parse_witness:
  "REQUEST_METHOD (get_request ''location=Denver%2C+Colorado'') = ''GET'' \<and>
   \<not> truthy (query_param test_ext (get_request ''location=Denver%2C+Colorado'') ''start_date'') \<and>
   \<not> truthy (query_param test_ext (get_request ''location=Denver%2C+Colorado'') ''end_date'') \<and>
   outcome_status (fst (call test_ext test_world test_reviews
      (get_request ''location=Denver%2C+Colorado''))) = Some ''200 OK'' \<and>
   call (test_ext\<lparr>to_datetime := Map.empty\<rparr>) test_world test_reviews
      (get_request ''location=Denver%2C+Colorado'') =
     call test_ext test_world test_reviews (get_request ''location=Denver%2C+Colorado'')"
proof -
  let ?env = "get_request ''location=Denver%2C+Colorado''"
  have h: "\<not> truthy (query_param test_ext ?env ''start_date'')"
    "\<not> truthy (query_param test_ext ?env ''end_date'')"
    by (simp_all add: truthy_def query_param_def query_params_def params_get_first_def test_defs)
  from no_date_params_no_parse [OF get_request_method h, of test_world test_reviews Map.empty]
    get_request_method h
  show ?thesis by simp
qed

section \<open>Queries do not change the store\<close>

text \<open>
  Claim C9. After a GET request the store is the store before it, for all parameters and
  all stores; and when no review passes the filter the answer is \<^verbatim>\<open>200 OK\<close> with the
  serialised empty array as body.
\<close>

theorem get_read_only:
  assumes "REQUEST_METHOD env = ''GET''"
  shows "snd (call ext w reviews env) = reviews \<and>
         (filtered_reviews ext reviews (query_param ext env ''location'')
            (query_param ext env ''start_date'') (query_param ext env ''end_date'') = Inr [] \<longrightarrow>
          fst (call ext w reviews env) =
            Responded
              \<lparr>status = ''200 OK'',
               headers = [(''Content-Type'', ''application/json''),
                          (''Content-Length'', str (length (json_dumps ext (JArray []))))],
               body = [json_dumps ext (JArray [])]\<rparr>)"
proof -
  have "results ext [] = []"
    by (simp add: results_def sort_reverse_def)
  then show ?thesis
    by (auto simp: call_get [OF assms] ok_response_def dest!: handle_get_filtered)
qed

text \<open>
  No review of the example store is in Reno.
\<close>

theorem get_read_only_witness:
  "REQUEST_METHOD (get_request ''location=Reno%2C+Nevada'') = ''GET'' \<and>
   filtered_reviews test_ext test_reviews
     (query_param test_ext (get_request ''location=Reno%2C+Nevada'') ''location'')
     (query_param test_ext (get_request ''location=Reno%2C+Nevada'') ''start_date'')
     (query_param test_ext (get_request ''location=Reno%2C+Nevada'') ''end_date'') = Inr [] \<and>
   call test_ext test_world test_reviews (get_request ''location=Reno%2C+Nevada'') =
     (Responded
        \<lparr>status = ''200 OK'',
         headers = [(''Content-Type'', ''application/json''), (''Content-Length'', ''2'')],
         body = [''[]'']\<rparr>,
      test_reviews)"
proof -
  let ?env = "get_request ''location=Reno%2C+Nevada''"
  have f: "filtered_reviews test_ext test_reviews (query_param test_ext ?env ''location'')
     (query_param test_ext ?env ''start_date'') (query_param test_ext ?env ''end_date'') = Inr []"
    by (simp add: handler_defs test_defs)
  have d: "json_dumps test_ext (JArray []) = ''[]''"
    by (simp add: test_ext_def test_json_dumps_def)
  have v: "str (Suc (Suc 0)) = ''2''"
    by (simp add: str.simps)
  from get_read_only [OF get_request_method, where ext = test_ext and w = test_world
      and reviews = test_reviews and q1 = "''location=Reno%2C+Nevada''"]
    f d v get_request_method
  show ?thesis by (simp add: prod_eq_iff)
qed

section \<open>Stored timestamps that do not parse\<close>




end
